theory Spec2Isabelle
  imports Complex_Main "HOL-Library.Word" "HOL-Library.Sublist"
begin

section \<open>JavaScript values as the Eliza ingest server sees them\<close>

text \<open>
  The server of \<^verbatim>\<open>apps/eliza/server/index.ts\<close> reads bodies parsed by
  \<^verbatim>\<open>express.json()\<close> and compares numbers. A JavaScript number is a double:
  it is modelled by its value, a rational when finite (the comparison of two finite
  doubles is the comparison of their values; \<open>+0\<close> and \<open>-0\<close> compare equal and are
  both \<open>Fin 0\<close>), or one of \<open>NaN\<close>, \<open>+Infinity\<close>, \<open>-Infinity\<close>.
\<close>

datatype jsnum = NaN | NegInf | Fin rat | PosInf

datatype json =
    JNull
  | JBool bool
  | JNum jsnum
  | JStr string
  | JArr "json list"
  | JObj "(string \<times> json) list"

text \<open>A value that may be \<^verbatim>\<open>undefined\<close> is a \<open>json option\<close>, \<open>None\<close> being
  \<^verbatim>\<open>undefined\<close>. An object is the list of its own properties.\<close>

type_synonym jsobject = "(string \<times> json) list"

text \<open>The relational operator \<^verbatim>\<open>a > b\<close> on two numbers: false as soon as one is NaN.\<close>

fun num_gt :: "jsnum \<Rightarrow> jsnum \<Rightarrow> bool" where
  "num_gt NaN b = False"
| "num_gt a NaN = False"
| "num_gt NegInf b = False"
| "num_gt (Fin x) NegInf = True"
| "num_gt (Fin x) (Fin y) = (y < x)"
| "num_gt (Fin x) PosInf = False"
| "num_gt PosInf PosInf = False"
| "num_gt PosInf b = True"

subsection \<open>Conversions that can throw\<close>

datatype js_error = TypeError

text \<open>
  Reading a string as a number and printing a number are the language's own
  grammar over doubles; they never throw, and they are the two parameters every
  definition below takes as \<open>cv\<close>, so a theorem holds whatever they return.
\<close>

record jsconv =
  StringToNumber :: "string \<Rightarrow> jsnum"
  NumberToString :: "jsnum \<Rightarrow> string"

fun join_commas :: "string list \<Rightarrow> string" where
  "join_commas [] = []"
| "join_commas [s] = s"
| "join_commas (s # ss) = s @ '','' @ join_commas ss"

text \<open>
  ToString of a parsed value. An object is converted by its \<^verbatim>\<open>toString\<close> and then its
  \<^verbatim>\<open>valueOf\<close>: the inherited \<^verbatim>\<open>toString\<close> prints \<^verbatim>\<open>[object Object]\<close>, the inherited
  \<^verbatim>\<open>valueOf\<close> returns the object itself, and an own property of a parsed object is
  never a function. So an object with an own \<^verbatim>\<open>toString\<close> property has no primitive
  value and the conversion throws TypeError, whatever its \<^verbatim>\<open>valueOf\<close>. An array
  prints its elements joined by commas, \<^verbatim>\<open>null\<close> as the empty text, and throws when
  an element does.
\<close>

fun to_string :: "jsconv \<Rightarrow> json \<Rightarrow> js_error + string"
  and elem_strings :: "jsconv \<Rightarrow> json list \<Rightarrow> js_error + string list" where
  "to_string cv JNull = Inr ''null''"
| "to_string cv (JBool b) = Inr (if b then ''true'' else ''false'')"
| "to_string cv (JNum n) = Inr (NumberToString cv n)"
| "to_string cv (JStr s) = Inr s"
| "to_string cv (JArr xs) =
     (case elem_strings cv xs of Inl e \<Rightarrow> Inl e | Inr ss \<Rightarrow> Inr (join_commas ss))"
| "to_string cv (JObj kvs) =
     (if map_of kvs ''toString'' \<noteq> None then Inl TypeError else Inr ''[object Object]'')"
| "elem_strings cv [] = Inr []"
| "elem_strings cv (x # xs) =
     (case (case x of JNull \<Rightarrow> Inr [] | _ \<Rightarrow> to_string cv x) of
        Inl e \<Rightarrow> Inl e
      | Inr s \<Rightarrow> (case elem_strings cv xs of Inl e \<Rightarrow> Inl e | Inr ss \<Rightarrow> Inr (s # ss)))"

text \<open>
  ToNumber, as \<^verbatim>\<open>Number(v)\<close> and the greater-than operator against a number apply it.
  \<^verbatim>\<open>undefined\<close> is NaN, \<^verbatim>\<open>null\<close> is 0, a boolean is 0 or 1, a number is itself, a
  string is read as a number; an array or an object is first converted to a
  primitive, with the same two methods as above and the same result, and that can
  throw.
\<close>

fun to_number :: "jsconv \<Rightarrow> json option \<Rightarrow> js_error + jsnum" where
  "to_number cv None = Inr NaN"
| "to_number cv (Some JNull) = Inr (Fin 0)"
| "to_number cv (Some (JBool b)) = Inr (if b then Fin 1 else Fin 0)"
| "to_number cv (Some (JNum n)) = Inr n"
| "to_number cv (Some (JStr s)) = Inr (StringToNumber cv s)"
| "to_number cv (Some v) =
     (case to_string cv v of Inl e \<Rightarrow> Inl e | Inr s \<Rightarrow> Inr (StringToNumber cv s))"

text \<open>Truthiness, as the conditional operator \<^verbatim>\<open>req.body ? 1 : 0\<close> tests it.\<close>

fun truthy :: "json option \<Rightarrow> bool" where
  "truthy None = False"
| "truthy (Some JNull) = False"
| "truthy (Some (JBool b)) = b"
| "truthy (Some (JNum n)) = (n \<noteq> NaN \<and> n \<noteq> Fin 0)"
| "truthy (Some (JStr s)) = (s \<noteq> [])"
| "truthy (Some (JArr xs)) = True"
| "truthy (Some (JObj kvs)) = True"

fun isArray :: "json option \<Rightarrow> bool" where
  "isArray (Some (JArr xs)) = True"
| "isArray v = False"

text \<open>\<^verbatim>\<open>x || 0\<close> on a number \<open>x\<close>: NaN and zero are falsy and give 0.\<close>

definition or_zero :: "jsnum \<Rightarrow> jsnum" where
  "or_zero n = (if n = NaN \<or> n = Fin 0 then Fin 0 else n)"

subsection \<open>Object spread\<close>

text \<open>Decimal digits of an array index, the property names of an array or string.\<close>

fun show_nat :: "nat \<Rightarrow> string" where
  "show_nat n =
     (if n < 10 then [char_of (48 + n)]
      else show_nat (n div 10) @ [char_of (48 + n mod 10)])"

declare show_nat.simps [simp del]

text \<open>Defining a property: an existing name keeps its place and takes the new value.
  The list records which properties an object has and their values; the order in
  which the language enumerates them (index-like names first) is not modelled.\<close>

fun obj_put :: "string \<Rightarrow> json \<Rightarrow> jsobject \<Rightarrow> jsobject" where
  "obj_put k v [] = [(k, v)]"
| "obj_put k v (p # ps) = (if fst p = k then (k, v) # ps else p # obj_put k v ps)"

text \<open>
  The own enumerable properties \<^verbatim>\<open>{...payload}\<close> copies: those of an object, the
  indexed elements of an array, the indexed characters of a string, none of a
  number, a boolean or \<^verbatim>\<open>null\<close>.
\<close>

fun own_props :: "json \<Rightarrow> jsobject" where
  "own_props (JObj kvs) = kvs"
| "own_props (JArr xs) = zip (map show_nat [0..<length xs]) xs"
| "own_props (JStr s) = zip (map show_nat [0..<length s]) (map (\<lambda>c. JStr [c]) s)"
| "own_props v = []"

definition spread_into :: "jsobject \<Rightarrow> json \<Rightarrow> jsobject" where
  "spread_into obj payload = fold (\<lambda>(k, v) acc. obj_put k v acc) (own_props payload) obj"

section \<open>The Eliza ingest server\<close>

definition MAX_EVENTS :: nat where
  "MAX_EVENTS = 500"

text \<open>\<^verbatim>\<open>{ ts: Date.now(), ...payload }\<close>: the time stamp first, then the payload's
  properties over it. A payload that has a property \<^verbatim>\<open>ts\<close> of its own replaces it.\<close>

definition mk_event :: "int \<Rightarrow> json \<Rightarrow> jsobject" where
  "mk_event now payload = spread_into [(''ts'', JNum (Fin (of_int now)))] payload"

text \<open>
  The body of the \<^verbatim>\<open>forEach\<close> of \<^verbatim>\<open>/ingest\<close>: push, then one \<^verbatim>\<open>shift\<close> when the
  store is over the bound. \<open>clock i\<close> is what \<^verbatim>\<open>Date.now()\<close> returns at the
  \<open>i\<close>-th element.
\<close>

definition push_shift :: "jsobject \<Rightarrow> jsobject list \<Rightarrow> jsobject list" where
  "push_shift ev evs =
     (let evs' = evs @ [ev] in if length evs' > MAX_EVENTS then tl evs' else evs')"

fun ingest_each :: "(nat \<Rightarrow> int) \<Rightarrow> nat \<Rightarrow> json list \<Rightarrow> jsobject list \<Rightarrow> jsobject list" where
  "ingest_each clock i [] evs = evs"
| "ingest_each clock i (p # ps) evs =
     ingest_each clock (Suc i) ps (push_shift (mk_event (clock i) p) evs)"

record ingest_reply =
  ok :: bool
  count :: nat

text \<open>\<^verbatim>\<open>app.post("/ingest")\<close>: the new store and the JSON reply.\<close>

definition post_ingest ::
  "(nat \<Rightarrow> int) \<Rightarrow> json option \<Rightarrow> jsobject list \<Rightarrow> jsobject list \<times> ingest_reply" where
  "post_ingest clock body evs =
     (let count = (case body of
                     Some (JArr xs) \<Rightarrow> length xs
                   | _ \<Rightarrow> if truthy body then 1 else 0);
          evs' = (case body of
                    Some (JArr xs) \<Rightarrow> ingest_each clock 0 xs evs
                  | _ \<Rightarrow> evs)
      in (evs', \<lparr>ok = True, count = count\<rparr>))"

record events_reply =
  now :: int
  events :: "jsobject list"

text \<open>\<^verbatim>\<open>event.ts\<close> read as a number by \<^verbatim>\<open>event.ts > since\<close>; an event without the
  property reads \<^verbatim>\<open>undefined\<close>.\<close>

definition ts_num :: "jsconv \<Rightarrow> jsobject \<Rightarrow> js_error + jsnum" where
  "ts_num cv ev = to_number cv (map_of ev ''ts'')"

text \<open>\<^verbatim>\<open>Number(req.query.since) || 0\<close>; \<open>q\<close> is \<^verbatim>\<open>req.query.since\<close>: absent, a string,
  or an array or object of the query parser.\<close>

definition since_of :: "jsconv \<Rightarrow> json option \<Rightarrow> js_error + jsnum" where
  "since_of cv q = (case to_number cv q of Inl e \<Rightarrow> Inl e | Inr n \<Rightarrow> Inr (or_zero n))"

text \<open>\<^verbatim>\<open>EVENTS.filter((event) => event.ts > since)\<close>: the events are tested in order
  and a comparison that throws ends the call.\<close>

fun filter_since :: "jsconv \<Rightarrow> jsnum \<Rightarrow> jsobject list \<Rightarrow> js_error + jsobject list" where
  "filter_since cv since [] = Inr []"
| "filter_since cv since (event # rest) =
     (case ts_num cv event of
        Inl e \<Rightarrow> Inl e
      | Inr n \<Rightarrow>
          (case filter_since cv since rest of
             Inl e \<Rightarrow> Inl e
           | Inr kept \<Rightarrow> Inr (if num_gt n since then event # kept else kept)))"

text \<open>\<^verbatim>\<open>app.get("/api/events")\<close>: the JSON reply, or the error the handler throws (the
  framework then answers with status 500). It does not write the store.\<close>

definition get_api_events ::
  "jsconv \<Rightarrow> int \<Rightarrow> json option \<Rightarrow> jsobject list \<Rightarrow> js_error + events_reply" where
  "get_api_events cv t q evs =
     (case since_of cv q of
        Inl e \<Rightarrow> Inl e
      | Inr since \<Rightarrow>
          (case filter_since cv since evs of
             Inl e \<Rightarrow> Inl e
           | Inr filteredEvents \<Rightarrow> Inr \<lparr>now = t, events = filteredEvents\<rparr>))"

record seed_reply =
  seed_ok :: bool
  added :: jsobject

definition seed_event :: "int \<Rightarrow> jsobject" where
  "seed_event t =
     [(''ts'', JNum (Fin (of_int t))), (''symbol'', JStr ''SEED''),
      (''name'', JStr ''Seed Event''), (''mint'', JStr ''SeedMint''),
      (''creator'', JStr ''Seed''), (''tx'', JStr ''SeedTx'')]"

text \<open>\<^verbatim>\<open>app.post('/api/seed')\<close>: push, then \<^verbatim>\<open>splice(0, length - MAX_EVENTS)\<close> when
  over the bound.\<close>

definition post_seed :: "int \<Rightarrow> jsobject list \<Rightarrow> jsobject list \<times> seed_reply" where
  "post_seed t evs =
     (let ev = seed_event t;
          evs' = evs @ [ev];
          evs'' = (if length evs' > MAX_EVENTS then drop (length evs' - MAX_EVENTS) evs' else evs')
      in (evs'', \<lparr>seed_ok = True, added = ev\<rparr>))"

text \<open>The requests that reach a handler, each with what \<^verbatim>\<open>Date.now()\<close> returns in it,
  and the store after one request and after a sequence of them from the empty store.\<close>

datatype request =
    Ingest "nat \<Rightarrow> int" "json option"
  | ApiEvents int "json option"
  | Seed int
  | Health
  | Dash

fun handle :: "request \<Rightarrow> jsobject list \<Rightarrow> jsobject list" where
  "handle (Ingest clock body) evs = fst (post_ingest clock body evs)"
| "handle (ApiEvents t q) evs = evs"
| "handle (Seed t) evs = fst (post_seed t evs)"
| "handle Health evs = evs"
| "handle Dash evs = evs"

definition serve :: "request list \<Rightarrow> jsobject list" where
  "serve reqs = fold handle reqs []"

section \<open>The alert pipeline of the pump.fun bot\<close>

text \<open>
  The Python modules of the bot are documented by the guides of the repository; the
  definitions of this section follow those documents and sections 3 and 4 of the
  specification, and each says which.
\<close>

subsection \<open>Creation events\<close>

text \<open>Modelled from the spec: the event record of section 3 (the Python class that
  holds a detected token is not among the sources). Addresses and the signature are
  their printed form; \<open>observedAt\<close> is the ingest time.\<close>

record CreationEvent =
  signature :: string
  name :: string
  symbol :: string
  uri :: string
  mintAddress :: string
  bondingCurveAddress :: string
  associatedCurveAddress :: string
  creatorAddress :: string
  observedAt :: int

text \<open>The event of the examples in the repository's guides.\<close>

definition doge_event :: CreationEvent where
  "doge_event =
     \<lparr>signature = ''5J8YU7v4gW2KgjsXP1uFYEjyG3jKGN4w9L4z8YVyXzLmK3NJxP6Dx9TcRbGFfMsW8xYu7V6kN1mL2FhZq5P4wQ8T'',
      name = ''DogeCoin2.0'',
      symbol = ''DOGE2'',
      uri = ''https://pump.fun/meta/7xKXtg2CW87d97TXJSDpbD5jBkheTqA83TZRuJosgAsU.json'',
      mintAddress = ''7xKXtg2CW87d97TXJSDpbD5jBkheTqA83TZRuJosgAsU'',
      bondingCurveAddress = ''CebN5uJmj6F7vG2jNjbbCs5DXksJgNpGPq4q9DGoPWd1'',
      associatedCurveAddress = ''5Q544fKrFoe6tsEbD7S8EmxGTJYAKtTVhAWWM'',
      creatorAddress = ''9WzDXwBbmkg8ZTbNMqUxvQRAyrZzDsGYdLVL9zYtAWWM'',
      observedAt = 1752363930123456\<rparr>"

subsection \<open>Filter evaluation\<close>

datatype reject_reason = BlockedWord | LengthOutOfRange | CreatorNotAllowed | NoKeywordMatch

datatype FilterResult = Pass | Reject reject_reason

text \<open>Modelled from the spec: the filter configuration of section 3 (the module
  \<^verbatim>\<open>signal_alert_bot.py\<close> that reads \<^verbatim>\<open>alert_config.json\<close> is not among the
  sources). The sets are the arrays of the configuration file; a length bound that
  is not configured is \<open>None\<close>.\<close>

record FilterConfig =
  nameContains :: "string list"
  symbolContains :: "string list"
  blockedWords :: "string list"
  creatorAllowlist :: "string list"
  minNameLength :: "nat option"
  maxNameLength :: "nat option"

text \<open>
  Matching is case-insensitive. The case folding of the implementation's strings is
  the parameter \<open>fold_case\<close> of every definition below: \<open>w\<close> occurs in \<open>s\<close> when the
  folded \<open>w\<close> is a contiguous run of the folded \<open>s\<close>.
\<close>

definition contains_ci :: "(string \<Rightarrow> string) \<Rightarrow> string \<Rightarrow> string \<Rightarrow> bool" where
  "contains_ci fold_case w s = sublist (fold_case w) (fold_case s)"

definition blocked :: "(string \<Rightarrow> string) \<Rightarrow> CreationEvent \<Rightarrow> FilterConfig \<Rightarrow> bool" where
  "blocked fold_case ev cfg =
     list_ex (\<lambda>w. contains_ci fold_case w (name ev) \<or> contains_ci fold_case w (symbol ev))
       (blockedWords cfg)"

definition length_ok :: "CreationEvent \<Rightarrow> FilterConfig \<Rightarrow> bool" where
  "length_ok ev cfg =
     ((case minNameLength cfg of None \<Rightarrow> True | Some lo \<Rightarrow> lo \<le> length (name ev)) \<and>
      (case maxNameLength cfg of None \<Rightarrow> True | Some hi \<Rightarrow> length (name ev) \<le> hi))"

definition creator_ok :: "CreationEvent \<Rightarrow> FilterConfig \<Rightarrow> bool" where
  "creator_ok ev cfg =
     (creatorAllowlist cfg = [] \<or> List.member (creatorAllowlist cfg) (creatorAddress ev))"

definition keyword_ok :: "(string \<Rightarrow> string) \<Rightarrow> CreationEvent \<Rightarrow> FilterConfig \<Rightarrow> bool" where
  "keyword_ok fold_case ev cfg =
     ((nameContains cfg = [] \<and> symbolContains cfg = []) \<or>
      list_ex (\<lambda>k. contains_ci fold_case k (name ev)) (nameContains cfg) \<or>
      list_ex (\<lambda>k. contains_ci fold_case k (symbol ev)) (symbolContains cfg))"

text \<open>Modelled from the spec: the filter evaluator of section 4.3 (its module
  \<^verbatim>\<open>signal_alert_bot.py\<close> is not among the sources). The order of the four checks is
  that of section 4.3 and of the "Filtering Pipeline" of the bot's README: blocked
  words, name length, creator allowlist, keywords; the first check that fails
  decides. Keywords of \<open>nameContains\<close> are looked for in the name and those of
  \<open>symbolContains\<close> in the symbol, as the README describes the two arrays; a creator
  is listed when the address is an element of the allowlist.\<close>

definition evaluate ::
  "(string \<Rightarrow> string) \<Rightarrow> CreationEvent \<Rightarrow> FilterConfig \<Rightarrow> FilterResult" where
  "evaluate fold_case ev cfg =
     (if blocked fold_case ev cfg then Reject BlockedWord
      else if \<not> length_ok ev cfg then Reject LengthOutOfRange
      else if \<not> creator_ok ev cfg then Reject CreatorNotAllowed
      else if \<not> keyword_ok fold_case ev cfg then Reject NoKeywordMatch
      else Pass)"

text \<open>A case folding for the examples: the folding of ASCII text, which maps the
  letters \<^verbatim>\<open>A\<close> to \<^verbatim>\<open>Z\<close> to \<^verbatim>\<open>a\<close> to \<^verbatim>\<open>z\<close>.\<close>

definition ascii_lower :: "string \<Rightarrow> string" where
  "ascii_lower s =
     map (\<lambda>c. let n = (of_char c :: nat) in if 65 \<le> n \<and> n \<le> 90 then char_of (n + 32) else c) s"

subsection \<open>Frame decoding\<close>

type_synonym byte = "8 word"

definition CREATE_DISCRIMINATOR :: "64 word" where
  "CREATE_DISCRIMINATOR = 8530921459188068891"

definition TRIGGER :: string where
  "TRIGGER = ''Program log: Instruction: Create''"

definition DATA_PREFIX :: string where
  "DATA_PREFIX = ''Program data: ''"

text \<open>A little-endian unsigned integer: the first byte is the least significant.\<close>

fun read_le :: "byte list \<Rightarrow> 64 word" where
  "read_le [] = 0"
| "read_le (b # bs) = ucast b + 256 * read_le bs"

definition read_u64_le :: "byte list \<Rightarrow> 64 word" where
  "read_u64_le data = read_le (take 8 data)"

record frame =
  logs :: "string list"
  frame_signature :: string

text \<open>The text after the marker of the first log line that carries program data.\<close>

fun payload_line :: "string list \<Rightarrow> string option" where
  "payload_line [] = None"
| "payload_line (l # ls) =
     (if prefix DATA_PREFIX l then Some (drop (length DATA_PREFIX) l) else payload_line ls)"

datatype decode_result = NoEvent | DecodeError | Event CreationEvent

text \<open>Modelled from the spec: the frame decoder of section 4.2 (the processor
  \<^verbatim>\<open>LogsEventProcessor\<close> of \<^verbatim>\<open>pump_monitor.py\<close> is not among the sources; the
  repository's monitor analysis documents its trigger line, its \<^verbatim>\<open>Program data:\<close>
  lines and its discriminator). Step 1 is the trigger line, step 2 the payload
  line, step 3 the discriminator; a payload that is not base64 or has fewer than
  eight bytes is a decode error. The base64 decoding of the library is the
  parameter \<open>b64decode\<close>. Steps 4 and 5, the layout of the fields behind the
  discriminator and the derived addresses, are the parameter \<open>decode_fields\<close>, which
  gets the remaining bytes and the signature and fails on a truncated or malformed
  payload: neither the specification nor the documents give the widths.\<close>

definition decode_frame ::
  "(string \<Rightarrow> byte list option) \<Rightarrow> (byte list \<Rightarrow> string \<Rightarrow> CreationEvent option)
    \<Rightarrow> frame \<Rightarrow> decode_result" where
  "decode_frame b64decode decode_fields fr =
     (if \<not> List.member (logs fr) TRIGGER then NoEvent
      else case payload_line (logs fr) of
        None \<Rightarrow> NoEvent
      | Some txt \<Rightarrow>
          (case b64decode txt of
             None \<Rightarrow> DecodeError
           | Some data \<Rightarrow>
               if length data < 8 then DecodeError
               else if read_u64_le data \<noteq> CREATE_DISCRIMINATOR then NoEvent
               else (case decode_fields (drop 8 data) (frame_signature fr) of
                       None \<Rightarrow> DecodeError
                     | Some ev \<Rightarrow> Event ev)))"

text \<open>Base64 of RFC 4648 on well-formed text: groups of four characters of the
  alphabet, the last one padded with \<^verbatim>\<open>=\<close>.\<close>

definition b64_value :: "char \<Rightarrow> nat option" where
  "b64_value c =
     (let n = (of_char c :: nat) in
      if 65 \<le> n \<and> n \<le> 90 then Some (n - 65)
      else if 97 \<le> n \<and> n \<le> 122 then Some (n - 71)
      else if 48 \<le> n \<and> n \<le> 57 then Some (n + 4)
      else if n = 43 then Some 62
      else if n = 47 then Some 63
      else None)"

fun b64_group :: "nat option list \<Rightarrow> byte list option" where
  "b64_group [Some a, Some b, Some c, Some d] =
     (let n = ((a * 64 + b) * 64 + c) * 64 + d
      in Some [of_nat (n div 65536), of_nat (n div 256 mod 256), of_nat (n mod 256)])"
| "b64_group [Some a, Some b, Some c] =
     (let n = (a * 64 + b) * 64 + c
      in Some [of_nat (n div 1024), of_nat (n div 4 mod 256)])"
| "b64_group [Some a, Some b] = Some [of_nat ((a * 64 + b) div 16)]"
| "b64_group vs = None"

fun rfc4648_decode :: "string \<Rightarrow> byte list option" where
  "rfc4648_decode [] = Some []"
| "rfc4648_decode [a, b, c, d] =
     (if c = CHR ''='' \<and> d = CHR ''='' then b64_group (map b64_value [a, b])
      else if d = CHR ''='' then b64_group (map b64_value [a, b, c])
      else b64_group (map b64_value [a, b, c, d]))"
| "rfc4648_decode (a # b # c # d # rest) =
     (case (b64_group (map b64_value [a, b, c, d]), rfc4648_decode rest) of
        (Some xs, Some ys) \<Rightarrow> Some (xs @ ys)
      | _ \<Rightarrow> None)"
| "rfc4648_decode cs = None"

section \<open>Properties of the Eliza ingest server\<close>

subsection \<open>A body that is not an array\<close>

lemma post_ingest_non_array:
  "\<not> isArray body \<Longrightarrow>
     post_ingest clock body evs = (evs, \<lparr>ok = True, count = (if truthy body then 1 else 0)\<rparr>)"
  by (cases body rule: isArray.cases) (simp_all add: post_ingest_def)

text \<open>
  C8. A \<^verbatim>\<open>POST /ingest\<close> whose body is not an array answers
  \<^verbatim>\<open>{ ok: true, count: c }\<close> with \<open>c = 1\<close> for a truthy body and \<open>c = 0\<close> otherwise, and
  leaves the store as it was: the request changes nothing that a later
  \<^verbatim>\<open>GET /api/events\<close> returns, so a single object is acknowledged and never recorded.
\<close>

theorem ingest_non_array_acknowledged_not_recorded:
  assumes "\<not> isArray body"
  shows "post_ingest clock body evs
           = (evs, \<lparr>ok = True, count = (if truthy body then 1 else 0)\<rparr>)
       \<and> handle (Ingest clock body) evs = evs
       \<and> get_api_events cv t q (handle (Ingest clock body) evs) = get_api_events cv t q evs"
  using assms by (simp add: post_ingest_non_array)

theorem ingest_non_array_acknowledged_not_recorded_witness:
  "\<not> isArray (Some (JObj [(''type'', JStr ''ping'')]))
   \<and> post_ingest (\<lambda>i. 1700000000000) (Some (JObj [(''type'', JStr ''ping'')])) [seed_event 5]
       = ([seed_event 5], \<lparr>ok = True, count = 1\<rparr>)
   \<and> post_ingest (\<lambda>i. 1700000000000) None [seed_event 5]
       = ([seed_event 5], \<lparr>ok = True, count = 0\<rparr>)"
  using ingest_non_array_acknowledged_not_recorded
          [of "Some (JObj [(''type'', JStr ''ping'')])" "\<lambda>i. 1700000000000" "[seed_event 5]"]
        ingest_non_array_acknowledged_not_recorded
          [of None "\<lambda>i. 1700000000000" "[seed_event 5]"]
  by simp

subsection \<open>The bound on the store\<close>

text \<open>One \<^verbatim>\<open>shift\<close> after a push restores the bound only from a store within it.\<close>

lemma push_shift_bound:
  "length evs \<le> MAX_EVENTS \<Longrightarrow> length (push_shift ev evs) \<le> MAX_EVENTS"
  by (simp add: push_shift_def Let_def)

lemma ingest_each_bound:
  "length evs \<le> MAX_EVENTS \<Longrightarrow> length (ingest_each clock i ps evs) \<le> MAX_EVENTS"
  by (induction ps arbitrary: i evs) (simp_all add: push_shift_bound)

lemma post_ingest_bound:
  "length evs \<le> MAX_EVENTS \<Longrightarrow> length (fst (post_ingest clock body evs)) \<le> MAX_EVENTS"
  by (cases body rule: isArray.cases) (simp_all add: post_ingest_def ingest_each_bound)

text \<open>The \<^verbatim>\<open>splice\<close> of the seed handler cuts to the bound from any store.\<close>

lemma post_seed_bound: "length (fst (post_seed t evs)) \<le> MAX_EVENTS"
  by (simp add: post_seed_def Let_def MAX_EVENTS_def)

lemma handle_bound:
  "length evs \<le> MAX_EVENTS \<Longrightarrow> length (handle r evs) \<le> MAX_EVENTS"
  by (cases r) (simp_all add: post_ingest_bound post_seed_bound)

lemma fold_handle_bound:
  "length evs \<le> MAX_EVENTS \<Longrightarrow> length (fold handle reqs evs) \<le> MAX_EVENTS"
  by (induction reqs arbitrary: evs) (simp_all add: handle_bound)

text \<open>
  C9. The store starts empty and holds at most \<open>MAX_EVENTS = 500\<close> events after every
  sequence of requests; from such a store, the array branch of \<^verbatim>\<open>/ingest\<close> (push,
  then shift) and the \<^verbatim>\<open>/api/seed\<close> handler (push, then splice) both keep the bound.
\<close>

theorem events_store_bounded:
  "MAX_EVENTS = 500
   \<and> length (serve reqs) \<le> MAX_EVENTS
   \<and> length (fst (post_ingest clock (Some (JArr payloads)) (serve reqs))) \<le> MAX_EVENTS
   \<and> length (fst (post_seed t (serve reqs))) \<le> MAX_EVENTS"
proof -
  have reach: "length (serve reqs) \<le> MAX_EVENTS"
    unfolding serve_def by (rule fold_handle_bound) simp
  then show ?thesis
    by (simp add: post_ingest_bound post_seed_bound) (simp add: MAX_EVENTS_def)
qed

subsection \<open>Reading events since a time\<close>

lemma num_gt_irrefl: "\<not> num_gt a a"
  by (cases a) simp_all

text \<open>The filter throws exactly when reading some stored \<^verbatim>\<open>ts\<close> throws, and otherwise
  keeps the events above \<open>since\<close> in their order.\<close>

lemma filter_since_throws:
  "(filter_since cv since evs = Inl TypeError)
     = list_ex (\<lambda>e. ts_num cv e = Inl TypeError) evs"
proof (induction evs)
  case Nil
  show ?case by simp
next
  case (Cons e es)
  show ?case
  proof (cases "ts_num cv e")
    case (Inl x)
    then show ?thesis by (cases x) simp
  next
    case (Inr n)
    then show ?thesis using Cons.IH
      by (cases "filter_since cv since es") (auto split: js_error.splits)
  qed
qed

lemma filter_since_keeps:
  "list_all (\<lambda>e. ts_num cv e \<noteq> Inl TypeError) evs \<Longrightarrow>
     filter_since cv since evs
       = Inr (filter (\<lambda>e. \<exists>n. ts_num cv e = Inr n \<and> num_gt n since) evs)"
proof (induction evs)
  case Nil
  show ?case by simp
next
  case (Cons e es)
  then obtain n where n: "ts_num cv e = Inr n"
    by (cases "ts_num cv e") (auto intro: js_error.exhaust)
  from Cons have "filter_since cv since es
      = Inr (filter (\<lambda>e. \<exists>n. ts_num cv e = Inr n \<and> num_gt n since) es)"
    by simp
  with n show ?case by simp
qed

lemma since_of_throws:
  "(since_of cv q = Inl TypeError) = (to_number cv q = Inl TypeError)"
  by (cases "to_number cv q") (auto simp add: since_of_def intro: js_error.exhaust)

lemma api_events_throws:
  "(get_api_events cv t q evs = Inl TypeError)
     = (to_number cv q = Inl TypeError \<or> list_ex (\<lambda>e. ts_num cv e = Inl TypeError) evs)"
proof (cases "since_of cv q")
  case (Inl x)
  then show ?thesis using since_of_throws [of cv q]
    by (cases x) (simp add: get_api_events_def)
next
  case (Inr since)
  then have "to_number cv q \<noteq> Inl TypeError"
    using since_of_throws [of cv q] by simp
  then show ?thesis using Inr filter_since_throws [of cv since evs]
    by (cases "filter_since cv since evs") (auto simp add: get_api_events_def)
qed

lemma api_events_reply:
  assumes "to_number cv q = Inr s"
      and "list_all (\<lambda>e. ts_num cv e \<noteq> Inl TypeError) evs"
  shows "get_api_events cv t q evs
           = Inr \<lparr>now = t,
                  events = filter (\<lambda>e. \<exists>n. ts_num cv e = Inr n
                               \<and> num_gt n (if s = NaN \<or> s = Fin 0 then Fin 0 else s)) evs\<rparr>"
  using assms
  by (simp add: get_api_events_def since_of_def or_zero_def filter_since_keeps)

text \<open>
  C10, as stated, fails twice. With no \<^verbatim>\<open>since\<close> parameter the handler returns the
  events whose \<^verbatim>\<open>ts\<close> is above 0, and \<^verbatim>\<open>{ ts: Date.now(), ...payload }\<close> lets a payload
  bring its own \<^verbatim>\<open>ts\<close>: after \<^verbatim>\<open>POST /ingest\<close> of \<^verbatim>\<open>[{"ts": 0}]\<close> the store holds one
  event and \<^verbatim>\<open>GET /api/events\<close> returns none. After \<^verbatim>\<open>POST /ingest\<close> of
  \<^verbatim>\<open>[{"ts": {"toString": null}}]\<close> the stored \<^verbatim>\<open>ts\<close> has no primitive value, the
  comparison throws and the request has no response with events at all.
\<close>

theorem api_events_without_since_counterexample:
  "serve [Ingest (\<lambda>i. 1700000000000) (Some (JArr [JObj [(''ts'', JNum (Fin 0))]]))]
     = [[(''ts'', JNum (Fin 0))]]
   \<and> get_api_events \<lparr>StringToNumber = (\<lambda>s. NaN), NumberToString = (\<lambda>n. ''NaN'')\<rparr>
        1700000000001 None
        (serve [Ingest (\<lambda>i. 1700000000000) (Some (JArr [JObj [(''ts'', JNum (Fin 0))]]))])
     = Inr \<lparr>now = 1700000000001, events = []\<rparr>
   \<and> serve [Ingest (\<lambda>i. 1700000000000)
               (Some (JArr [JObj [(''ts'', JObj [(''toString'', JNull)])]]))]
     = [[(''ts'', JObj [(''toString'', JNull)])]]
   \<and> get_api_events \<lparr>StringToNumber = (\<lambda>s. NaN), NumberToString = (\<lambda>n. ''NaN'')\<rparr>
        1700000000001 None
        (serve [Ingest (\<lambda>i. 1700000000000)
                  (Some (JArr [JObj [(''ts'', JObj [(''toString'', JNull)])]]))])
     = Inl TypeError"
  by (simp add: serve_def post_ingest_def push_shift_def MAX_EVENTS_def mk_event_def
        spread_into_def get_api_events_def since_of_def or_zero_def ts_num_def)

text \<open>
  C10, amended. A \<^verbatim>\<open>GET /api/events\<close> throws exactly when reading \<^verbatim>\<open>since\<close> or some
  stored \<^verbatim>\<open>ts\<close> as a number throws. When \<^verbatim>\<open>since\<close> reads as the number \<open>s\<close> and no
  stored \<^verbatim>\<open>ts\<close> throws, the response holds, in the order of the store, exactly the
  stored events whose \<^verbatim>\<open>ts\<close>, read as a number, is strictly greater than \<open>s\<close>, taken
  as 0 when \<open>s\<close> is NaN or zero; an event whose \<^verbatim>\<open>ts\<close> equals that bound is left out;
  and with the bound 0 the response is the whole store exactly when every stored
  \<^verbatim>\<open>ts\<close> is above 0. An absent parameter reads as NaN, a string as the number it
  spells, a number as itself.
\<close>

theorem api_events_since_filter:
  "((get_api_events cv t q evs = Inl TypeError)
      = (to_number cv q = Inl TypeError \<or> list_ex (\<lambda>e. ts_num cv e = Inl TypeError) evs))
   \<and> (to_number cv q = Inr s \<and> list_all (\<lambda>e. ts_num cv e \<noteq> Inl TypeError) evs \<longrightarrow>
        get_api_events cv t q evs
          = Inr \<lparr>now = t,
                 events = filter (\<lambda>e. \<exists>n. ts_num cv e = Inr n
                              \<and> num_gt n (if s = NaN \<or> s = Fin 0 then Fin 0 else s)) evs\<rparr>
        \<and> (ts_num cv e = Inr (if s = NaN \<or> s = Fin 0 then Fin 0 else s) \<longrightarrow>
             e \<notin> set (filter (\<lambda>e. \<exists>n. ts_num cv e = Inr n
                          \<and> num_gt n (if s = NaN \<or> s = Fin 0 then Fin 0 else s)) evs))
        \<and> (s = NaN \<or> s = Fin 0 \<longrightarrow>
             (get_api_events cv t q evs = Inr \<lparr>now = t, events = evs\<rparr>)
               = list_all (\<lambda>e. \<exists>n. ts_num cv e = Inr n \<and> num_gt n (Fin 0)) evs))
   \<and> to_number cv None = Inr NaN
   \<and> to_number cv (Some (JStr x)) = Inr (StringToNumber cv x)
   \<and> to_number cv (Some (JNum m)) = Inr m"
proof -
  have throws: "(get_api_events cv t q evs = Inl TypeError)
      = (to_number cv q = Inl TypeError \<or> list_ex (\<lambda>e. ts_num cv e = Inl TypeError) evs)"
    by (rule api_events_throws)
  have reply: "to_number cv q = Inr s \<and> list_all (\<lambda>e. ts_num cv e \<noteq> Inl TypeError) evs \<longrightarrow>
        get_api_events cv t q evs
          = Inr \<lparr>now = t,
                 events = filter (\<lambda>e. \<exists>n. ts_num cv e = Inr n
                              \<and> num_gt n (if s = NaN \<or> s = Fin 0 then Fin 0 else s)) evs\<rparr>
        \<and> (ts_num cv e = Inr (if s = NaN \<or> s = Fin 0 then Fin 0 else s) \<longrightarrow>
             e \<notin> set (filter (\<lambda>e. \<exists>n. ts_num cv e = Inr n
                          \<and> num_gt n (if s = NaN \<or> s = Fin 0 then Fin 0 else s)) evs))
        \<and> (s = NaN \<or> s = Fin 0 \<longrightarrow>
             (get_api_events cv t q evs = Inr \<lparr>now = t, events = evs\<rparr>)
               = list_all (\<lambda>e. \<exists>n. ts_num cv e = Inr n \<and> num_gt n (Fin 0)) evs)"
  proof (intro impI, elim conjE)
    assume s: "to_number cv q = Inr s"
       and ok: "list_all (\<lambda>e. ts_num cv e \<noteq> Inl TypeError) evs"
    note r = api_events_reply [OF s ok, of t]
    have excl: "ts_num cv e = Inr (if s = NaN \<or> s = Fin 0 then Fin 0 else s) \<longrightarrow>
             e \<notin> set (filter (\<lambda>e. \<exists>n. ts_num cv e = Inr n
                          \<and> num_gt n (if s = NaN \<or> s = Fin 0 then Fin 0 else s)) evs)"
      by (auto simp add: num_gt_irrefl)
    have whole: "s = NaN \<or> s = Fin 0 \<longrightarrow>
             (get_api_events cv t q evs = Inr \<lparr>now = t, events = evs\<rparr>)
               = list_all (\<lambda>e. \<exists>n. ts_num cv e = Inr n \<and> num_gt n (Fin 0)) evs"
      using r by (auto simp add: list_all_iff filter_id_conv)
    from r excl whole show "get_api_events cv t q evs
          = Inr \<lparr>now = t,
                 events = filter (\<lambda>e. \<exists>n. ts_num cv e = Inr n
                              \<and> num_gt n (if s = NaN \<or> s = Fin 0 then Fin 0 else s)) evs\<rparr>
        \<and> (ts_num cv e = Inr (if s = NaN \<or> s = Fin 0 then Fin 0 else s) \<longrightarrow>
             e \<notin> set (filter (\<lambda>e. \<exists>n. ts_num cv e = Inr n
                          \<and> num_gt n (if s = NaN \<or> s = Fin 0 then Fin 0 else s)) evs))
        \<and> (s = NaN \<or> s = Fin 0 \<longrightarrow>
             (get_api_events cv t q evs = Inr \<lparr>now = t, events = evs\<rparr>)
               = list_all (\<lambda>e. \<exists>n. ts_num cv e = Inr n \<and> num_gt n (Fin 0)) evs)"
      by blast
  qed
  have reads: "to_number cv None = Inr NaN
      \<and> to_number cv (Some (JStr x)) = Inr (StringToNumber cv x)
      \<and> to_number cv (Some (JNum m)) = Inr m"
    by simp
  show ?thesis by (rule conjI [OF throws conjI [OF reply reads]])
qed

text \<open>The witness reads \<^verbatim>\<open>since=1500\<close> and keeps, of the events stamped 1000, 1500 and
  2000, the last one only.\<close>

theorem api_events_since_filter_witness:
  "to_number \<lparr>StringToNumber = (\<lambda>s. if s = ''1500'' then Fin 1500 else NaN),
              NumberToString = (\<lambda>n. ''NaN'')\<rparr> (Some (JStr ''1500'')) = Inr (Fin 1500)
   \<and> list_all (\<lambda>e. ts_num \<lparr>StringToNumber = (\<lambda>s. if s = ''1500'' then Fin 1500 else NaN),
                            NumberToString = (\<lambda>n. ''NaN'')\<rparr> e \<noteq> Inl TypeError)
       [seed_event 1000, seed_event 1500, seed_event 2000]
   \<and> ts_num \<lparr>StringToNumber = (\<lambda>s. if s = ''1500'' then Fin 1500 else NaN),
             NumberToString = (\<lambda>n. ''NaN'')\<rparr> (seed_event 1500) = Inr (Fin 1500)
   \<and> get_api_events \<lparr>StringToNumber = (\<lambda>s. if s = ''1500'' then Fin 1500 else NaN),
                     NumberToString = (\<lambda>n. ''NaN'')\<rparr> 9 (Some (JStr ''1500''))
        [seed_event 1000, seed_event 1500, seed_event 2000]
      = Inr \<lparr>now = 9, events = [seed_event 2000]\<rparr>"
  using api_events_since_filter
          [of "\<lparr>StringToNumber = (\<lambda>s. if s = ''1500'' then Fin 1500 else NaN),
                NumberToString = (\<lambda>n. ''NaN'')\<rparr>"
              9 "Some (JStr ''1500'')" "[seed_event 1000, seed_event 1500, seed_event 2000]"
              "Fin 1500" "seed_event 1500"]
  by (simp add: ts_num_def seed_event_def)

section \<open>Properties of the alert pipeline\<close>

subsection \<open>Filter evaluation\<close>

lemma blocked_iff:
  "blocked lc ev cfg
     = (\<exists>w \<in> set (blockedWords cfg). sublist (lc w) (lc (name ev))
                                      \<or> sublist (lc w) (lc (symbol ev)))"
  by (simp add: blocked_def contains_ci_def list_ex_iff)

lemma creator_ok_iff:
  "creator_ok ev cfg
     = (creatorAllowlist cfg = [] \<or> creatorAddress ev \<in> set (creatorAllowlist cfg))"
  by (simp add: creator_ok_def)

lemma keyword_ok_iff:
  "keyword_ok lc ev cfg
     = ((nameContains cfg = [] \<and> symbolContains cfg = [])
        \<or> (\<exists>k \<in> set (nameContains cfg). sublist (lc k) (lc (name ev)))
        \<or> (\<exists>k \<in> set (symbolContains cfg). sublist (lc k) (lc (symbol ev))))"
  by (simp add: keyword_ok_def contains_ci_def list_ex_iff)

text \<open>
  C2. The result is a function of the event and the configuration (and of the case
  folding \<open>lc\<close> of the strings), and the four checks are applied in the order
  blocked word, name length, creator allowlist, keyword, the first that fails
  deciding: each outcome is returned exactly when the checks before it hold and its
  own fails, and \<open>Pass\<close> exactly when all four hold. In particular an event whose
  name contains a blocked word and a required keyword is rejected as \<open>BlockedWord\<close>;
  it neither passes nor is rejected for its keywords.
\<close>

theorem filter_checks_in_order:
  fixes lc :: "string \<Rightarrow> string" and ev :: CreationEvent and cfg :: FilterConfig
  defines "B \<equiv> (\<exists>w \<in> set (blockedWords cfg). sublist (lc w) (lc (name ev))
                                            \<or> sublist (lc w) (lc (symbol ev)))"
      and "L \<equiv> ((case minNameLength cfg of None \<Rightarrow> True | Some lo \<Rightarrow> lo \<le> length (name ev))
               \<and> (case maxNameLength cfg of None \<Rightarrow> True | Some hi \<Rightarrow> length (name ev) \<le> hi))"
      and "C \<equiv> (creatorAllowlist cfg = [] \<or> creatorAddress ev \<in> set (creatorAllowlist cfg))"
      and "K \<equiv> ((nameContains cfg = [] \<and> symbolContains cfg = [])
               \<or> (\<exists>k \<in> set (nameContains cfg). sublist (lc k) (lc (name ev)))
               \<or> (\<exists>k \<in> set (symbolContains cfg). sublist (lc k) (lc (symbol ev))))"
  shows "(evaluate lc ev cfg = Reject BlockedWord) = B
       \<and> (evaluate lc ev cfg = Reject LengthOutOfRange) = (\<not> B \<and> \<not> L)
       \<and> (evaluate lc ev cfg = Reject CreatorNotAllowed) = (\<not> B \<and> L \<and> \<not> C)
       \<and> (evaluate lc ev cfg = Reject NoKeywordMatch) = (\<not> B \<and> L \<and> C \<and> \<not> K)
       \<and> (evaluate lc ev cfg = Pass) = (\<not> B \<and> L \<and> C \<and> K)
       \<and> ((\<exists>w \<in> set (blockedWords cfg). sublist (lc w) (lc (name ev)))
            \<and> (\<exists>k \<in> set (nameContains cfg). sublist (lc k) (lc (name ev)))
          \<longrightarrow> evaluate lc ev cfg = Reject BlockedWord
              \<and> evaluate lc ev cfg \<noteq> Pass
              \<and> evaluate lc ev cfg \<noteq> Reject NoKeywordMatch)"
proof -
  have b: "blocked lc ev cfg = B"
    unfolding B_def by (rule blocked_iff)
  have l: "length_ok ev cfg = L"
    unfolding L_def by (rule length_ok_def)
  have c: "creator_ok ev cfg = C"
    unfolding C_def by (rule creator_ok_iff)
  have k: "keyword_ok lc ev cfg = K"
    unfolding K_def by (rule keyword_ok_iff)
  have first: "(\<exists>w \<in> set (blockedWords cfg). sublist (lc w) (lc (name ev))) \<longrightarrow> B"
    unfolding B_def by blast
  show ?thesis
    using first unfolding evaluate_def b l c k by auto
qed

text \<open>The witness has one event and configuration for each of the five outcomes, the
  first with a blocked word and a required keyword in the name.\<close>

theorem filter_checks_in_order_witness:
  "sublist (ascii_lower ''scam'') (ascii_lower ''DogeSCAMcoin'')
   \<and> sublist (ascii_lower ''doge'') (ascii_lower ''DogeSCAMcoin'')
   \<and> evaluate ascii_lower (doge_event\<lparr>name := ''DogeSCAMcoin''\<rparr>)
        \<lparr>nameContains = [''doge''], symbolContains = [], blockedWords = [''scam''],
         creatorAllowlist = [], minNameLength = None, maxNameLength = None\<rparr>
      = Reject BlockedWord
   \<and> evaluate ascii_lower doge_event
        \<lparr>nameContains = [''doge''], symbolContains = [], blockedWords = [''scam''],
         creatorAllowlist = [''nobody''], minNameLength = None, maxNameLength = Some 5\<rparr>
      = Reject LengthOutOfRange
   \<and> evaluate ascii_lower doge_event
        \<lparr>nameContains = [''pepe''], symbolContains = [], blockedWords = [''scam''],
         creatorAllowlist = [''nobody''], minNameLength = Some 3, maxNameLength = Some 20\<rparr>
      = Reject CreatorNotAllowed
   \<and> evaluate ascii_lower doge_event
        \<lparr>nameContains = [''pepe''], symbolContains = [''moon''], blockedWords = [''scam''],
         creatorAllowlist = [], minNameLength = Some 3, maxNameLength = Some 20\<rparr>
      = Reject NoKeywordMatch
   \<and> evaluate ascii_lower doge_event
        \<lparr>nameContains = [''doge''], symbolContains = [], blockedWords = [''scam''],
         creatorAllowlist = [], minNameLength = None, maxNameLength = None\<rparr>
      = Pass"
proof -
  have f: "ascii_lower ''scam'' = ''scam''" "ascii_lower ''doge'' = ''doge''"
    "ascii_lower ''pepe'' = ''pepe''" "ascii_lower ''moon'' = ''moon''"
    "ascii_lower ''DogeSCAMcoin'' = ''dogescamcoin''"
    "ascii_lower ''DogeCoin2.0'' = ''dogecoin2.0''" "ascii_lower ''DOGE2'' = ''doge2''"
    by code_simp+
  have s: "sublist ''scam'' ''dogescamcoin''" "sublist ''doge'' ''dogescamcoin''"
    "sublist ''doge'' ''dogecoin2.0''"
    "\<not> sublist ''scam'' ''dogecoin2.0''" "\<not> sublist ''scam'' ''doge2''"
    "\<not> sublist ''pepe'' ''dogecoin2.0''" "\<not> sublist ''moon'' ''doge2''"
    by code_simp+
  show ?thesis
    using
      filter_checks_in_order
        [of ascii_lower "doge_event\<lparr>name := ''DogeSCAMcoin''\<rparr>"
            "\<lparr>nameContains = [''doge''], symbolContains = [], blockedWords = [''scam''],
              creatorAllowlist = [], minNameLength = None, maxNameLength = None\<rparr>"]
      filter_checks_in_order
        [of ascii_lower doge_event
            "\<lparr>nameContains = [''doge''], symbolContains = [], blockedWords = [''scam''],
              creatorAllowlist = [''nobody''], minNameLength = None, maxNameLength = Some 5\<rparr>"]
      filter_checks_in_order
        [of ascii_lower doge_event
            "\<lparr>nameContains = [''pepe''], symbolContains = [], blockedWords = [''scam''],
              creatorAllowlist = [''nobody''], minNameLength = Some 3, maxNameLength = Some 20\<rparr>"]
      filter_checks_in_order
        [of ascii_lower doge_event
            "\<lparr>nameContains = [''pepe''], symbolContains = [''moon''], blockedWords = [''scam''],
              creatorAllowlist = [], minNameLength = Some 3, maxNameLength = Some 20\<rparr>"]
      filter_checks_in_order
        [of ascii_lower doge_event
            "\<lparr>nameContains = [''doge''], symbolContains = [], blockedWords = [''scam''],
              creatorAllowlist = [], minNameLength = None, maxNameLength = None\<rparr>"]
    by (simp add: f s doge_event_def)
qed

subsection \<open>Frame decoding\<close>

text \<open>The eight bytes of the discriminator, and those of another instruction.\<close>

lemma discriminator_bytes:
  "read_u64_le [27, 114, 169, 77, 222, 235, 99, 118] = CREATE_DISCRIMINATOR"
  by (simp add: read_u64_le_def CREATE_DISCRIMINATOR_def)

lemma other_bytes:
  "read_u64_le [24, 30, 200, 40, 5, 28, 7, 119] \<noteq> CREATE_DISCRIMINATOR"
  by (simp add: read_u64_le_def CREATE_DISCRIMINATOR_def)

lemma other_payload:
  "rfc4648_decode ''GB7IKAUcB3c='' = Some [24, 30, 200, 40, 5, 28, 7, 119]"
  by (simp add: b64_value_def)

text \<open>With the discriminator in front the decoder goes on to the fields.\<close>

lemma discriminator_match_decodes:
  assumes "List.member (logs fr) TRIGGER" and "payload_line (logs fr) = Some txt"
      and "b64decode txt = Some data" and "8 \<le> length data"
      and "read_u64_le data = CREATE_DISCRIMINATOR"
  shows "decode_frame b64decode decode_fields fr
           = (case decode_fields (drop 8 data) (frame_signature fr) of
                None \<Rightarrow> DecodeError | Some ev \<Rightarrow> Event ev)"
  using assms by (simp add: decode_frame_def)

text \<open>
  C3. A frame whose payload line decodes from base64 to at least eight bytes that,
  read as a little-endian 64-bit integer, are not the discriminator
  \<open>8530921459188068891\<close> yields no event and no decode error, with or without the
  trigger line and whatever follows the eight bytes.
\<close>

theorem discriminator_mismatch_no_event:
  assumes "payload_line (logs fr) = Some txt" and "b64decode txt = Some data"
      and "8 \<le> length data" and "read_u64_le data \<noteq> CREATE_DISCRIMINATOR"
  shows "decode_frame b64decode decode_fields fr = NoEvent"
  using assms by (simp add: decode_frame_def)

theorem discriminator_mismatch_no_event_witness:
  "payload_line [TRIGGER, ''Program data: GB7IKAUcB3c=''] = Some ''GB7IKAUcB3c=''
   \<and> rfc4648_decode ''GB7IKAUcB3c='' = Some [24, 30, 200, 40, 5, 28, 7, 119]
   \<and> read_u64_le [24, 30, 200, 40, 5, 28, 7, 119] \<noteq> CREATE_DISCRIMINATOR
   \<and> decode_frame rfc4648_decode (\<lambda>data sig. Some doge_event)
        \<lparr>logs = [TRIGGER, ''Program data: GB7IKAUcB3c=''], frame_signature = ''5J8YU7''\<rparr>
      = NoEvent"
proof -
  have line: "payload_line [TRIGGER, ''Program data: GB7IKAUcB3c=''] = Some ''GB7IKAUcB3c=''"
    by (simp add: DATA_PREFIX_def TRIGGER_def)
  show ?thesis
    using line other_payload other_bytes
      discriminator_mismatch_no_event
        [of "\<lparr>logs = [TRIGGER, ''Program data: GB7IKAUcB3c=''], frame_signature = ''5J8YU7''\<rparr>"
            "''GB7IKAUcB3c=''" rfc4648_decode "[24, 30, 200, 40, 5, 28, 7, 119]"
            "\<lambda>data sig. Some doge_event"]
    by simp
qed

end
